theory Spec2Isabelle
  imports Main
begin

section \<open>Candidate shifts and the feasibility filter\<close>

text \<open>
  Python's \<^verbatim>\<open>range(a, b)\<close> over unbounded integers: the hours \<open>a, a+1, ..., b-1\<close>,
  empty when \<open>b \<le> a\<close>.
\<close>

definition py_range :: "int \<Rightarrow> int \<Rightarrow> int list" where
  "py_range a b = [a..b - 1]"

text \<open>
  \<^verbatim>\<open>build_candidate_shifts(day_start_hour, day_length_hours, allowed_lengths)\<close>:
  the outer loop runs over the allowed lengths in their order, the inner loop over
  \<^verbatim>\<open>range(day_start_hour, day_end_hour - L + 1)\<close>, appending \<open>(start, start + L)\<close>.
\<close>

type_synonym shift = "int \<times> int"

definition build_candidate_shifts :: "int \<Rightarrow> int \<Rightarrow> int list \<Rightarrow> shift list" where
  "build_candidate_shifts day_start_hour day_length_hours allowed_lengths =
     (let day_end_hour = day_start_hour + day_length_hours
      in concat (map (\<lambda>L. map (\<lambda>start. (start, start + L))
                               (py_range day_start_hour (day_end_hour - L + 1)))
                     allowed_lengths))"

text \<open>
  \<^verbatim>\<open>overlaps_unavailability(shift, unavailable_blocks)\<close>: the loop over
  \<^verbatim>\<open>range(start, end)\<close> returns True at the first hour found in the set, False
  when the range is exhausted.
\<close>

fun hour_in_blocks :: "int list \<Rightarrow> int set \<Rightarrow> bool" where
  "hour_in_blocks [] unavailable_blocks = False"
| "hour_in_blocks (h # hs) unavailable_blocks =
     (if h \<in> unavailable_blocks then True else hour_in_blocks hs unavailable_blocks)"

definition overlaps_unavailability :: "shift \<Rightarrow> int set \<Rightarrow> bool" where
  "overlaps_unavailability shift unavailable_blocks =
     (case shift of (start, end) \<Rightarrow> hour_in_blocks (py_range start end) unavailable_blocks)"

section \<open>The constraint model handed to the solver\<close>

text \<open>
  The keys of the Python dictionaries \<^verbatim>\<open>x\<close>, \<^verbatim>\<open>coverage_vars\<close>,
  \<^verbatim>\<open>understaff\<close>, the positions of the list \<^verbatim>\<open>work_hours\<close> and the five
  scalar variables name the solver variables.
\<close>

datatype var =
    X nat nat
  | Coverage int
  | Understaff int
  | Work_hours nat
  | Max_work
  | Min_work
  | Spread
  | Total_coverage
  | Total_understaff

text \<open>Linear expressions as the Python operators \<^verbatim>\<open>+\<close>, \<^verbatim>\<open>-\<close>, \<^verbatim>\<open>*\<close> build them.\<close>

datatype linexpr =
    Num int
  | Var var
  | Plus linexpr linexpr
  | Minus linexpr linexpr
  | Times linexpr int

fun eval :: "(var \<Rightarrow> int) \<Rightarrow> linexpr \<Rightarrow> int" where
  "eval val (Num n) = n"
| "eval val (Var x) = val x"
| "eval val (Plus a b) = eval val a + eval val b"
| "eval val (Minus a b) = eval val a - eval val b"
| "eval val (Times a k) = eval val a * k"

text \<open>Python's built-in \<^verbatim>\<open>sum\<close>: starts from 0 and adds the terms from the left.\<close>

definition py_sum :: "linexpr list \<Rightarrow> linexpr" where
  "py_sum terms = foldl Plus (Num 0) terms"

datatype constr =
    Le linexpr linexpr
  | Ge linexpr linexpr
  | Eq linexpr linexpr
  | Max_equality linexpr "linexpr list"
  | Min_equality linexpr "linexpr list"

record cp_model =
  variables :: "(var \<times> int \<times> int) list"
  constraints :: "constr list"
  objective :: "linexpr option"

definition CpModel :: cp_model where
  "CpModel = \<lparr>variables = [], constraints = [], objective = None\<rparr>"

definition NewIntVar :: "int \<Rightarrow> int \<Rightarrow> var \<Rightarrow> cp_model \<Rightarrow> cp_model" where
  "NewIntVar lb ub x model = model\<lparr>variables := variables model @ [(x, lb, ub)]\<rparr>"

definition NewBoolVar :: "var \<Rightarrow> cp_model \<Rightarrow> cp_model" where
  "NewBoolVar x model = NewIntVar 0 1 x model"

definition Add :: "constr \<Rightarrow> cp_model \<Rightarrow> cp_model" where
  "Add c model = model\<lparr>constraints := constraints model @ [c]\<rparr>"

definition AddMaxEquality :: "linexpr \<Rightarrow> linexpr list \<Rightarrow> cp_model \<Rightarrow> cp_model" where
  "AddMaxEquality target exprs model = Add (Max_equality target exprs) model"

definition AddMinEquality :: "linexpr \<Rightarrow> linexpr list \<Rightarrow> cp_model \<Rightarrow> cp_model" where
  "AddMinEquality target exprs model = Add (Min_equality target exprs) model"

definition Minimize :: "linexpr \<Rightarrow> cp_model \<Rightarrow> cp_model" where
  "Minimize obj model = model\<lparr>objective := Some obj\<rparr>"

text \<open>
  Modelled from the spec: the constraint solving engine is an external library, absent
  from the sources. This is what it promises about a solution it reports (section 6 of
  the specification: bounded integer variables, linear equalities and inequalities,
  min/max equalities over a list of expressions). A max (min) equality asks the target to be one
  of the listed values and a bound of all of them; over an empty list nothing satisfies it.
\<close>

fun holds :: "(var \<Rightarrow> int) \<Rightarrow> constr \<Rightarrow> bool" where
  "holds val (Le a b) = (eval val a \<le> eval val b)"
| "holds val (Ge a b) = (eval val a \<ge> eval val b)"
| "holds val (Eq a b) = (eval val a = eval val b)"
| "holds val (Max_equality t es) =
     (list_ex (\<lambda>e. eval val t = eval val e) es \<and> list_all (\<lambda>e. eval val e \<le> eval val t) es)"
| "holds val (Min_equality t es) =
     (list_ex (\<lambda>e. eval val t = eval val e) es \<and> list_all (\<lambda>e. eval val t \<le> eval val e) es)"

definition in_domain :: "(var \<Rightarrow> int) \<Rightarrow> var \<times> int \<times> int \<Rightarrow> bool" where
  "in_domain val d = (case d of (x, lb, ub) \<Rightarrow> lb \<le> val x \<and> val x \<le> ub)"

definition satisfies :: "cp_model \<Rightarrow> (var \<Rightarrow> int) \<Rightarrow> bool" where
  "satisfies model val =
     (list_all (in_domain val) (variables model) \<and> list_all (holds val) (constraints model))"

datatype cp_status = UNKNOWN | MODEL_INVALID | FEASIBLE | INFEASIBLE | OPTIMAL

text \<open>
  Modelled from the spec: \<^verbatim>\<open>solver.Solve(model)\<close> together with
  \<^verbatim>\<open>solver.Value\<close>, the status and the value of every variable. The engine is a
  parameter of the core; its time limit is part of the function given here. A sound
  engine reports OPTIMAL or FEASIBLE only with values that satisfy the model.
\<close>

type_synonym solver = "cp_model \<Rightarrow> cp_status \<times> (var \<Rightarrow> int)"

definition solver_sound :: "solver \<Rightarrow> bool" where
  "solver_sound solve =
     (\<forall>model. case solve model of
        (status, val) \<Rightarrow> (status = OPTIMAL \<or> status = FEASIBLE) \<longrightarrow> satisfies model val)"

text \<open>
  A small backend for concrete runs: it is handed a candidate valuation and reports it
  as FEASIBLE exactly when it satisfies the model.
\<close>

definition checking_solver :: "(var \<Rightarrow> int) \<Rightarrow> solver" where
  "checking_solver candidate model =
     (if satisfies model candidate then (FEASIBLE, candidate) else (INFEASIBLE, candidate))"

section \<open>The scheduling core\<close>

text \<open>
  An employee dictionary \<^verbatim>\<open>{"name": str, "unavailable": set(int)}\<close>; the core reads
  the second key with \<^verbatim>\<open>e.get("unavailable", set())\<close>, so it may be absent.
\<close>

record employee =
  name :: string
  unavailable :: "int set option"

definition get_unavailable :: "employee \<Rightarrow> int set" where
  "get_unavailable e = (case unavailable e of None \<Rightarrow> {} | Some u \<Rightarrow> u)"

text \<open>Lines 79 to 83: one filtered copy of the candidate list per employee.\<close>

definition feasible_shifts :: "employee list \<Rightarrow> shift list \<Rightarrow> shift list list" where
  "feasible_shifts employees all_shifts =
     map (\<lambda>e. filter (\<lambda>s. \<not> overlaps_unavailability s (get_unavailable e)) all_shifts) employees"

text \<open>Lines 88 to 91: a Boolean variable per employee and feasible shift index.\<close>

definition add_decision_vars :: "shift list list \<Rightarrow> cp_model \<Rightarrow> cp_model" where
  "add_decision_vars feasible model =
     fold (\<lambda>(e_idx, shifts). fold (\<lambda>(s_idx, s). NewBoolVar (X e_idx s_idx)) (enumerate 0 shifts))
          (enumerate 0 feasible) model"

text \<open>
  Lines 94 to 96. For an employee without feasible shifts Python evaluates
  \<^verbatim>\<open>0 <= 1\<close> itself and adds the constant true; \<open>Le (Num 0) (Num 1)\<close> says the same.
\<close>

definition add_one_shift :: "shift list list \<Rightarrow> cp_model \<Rightarrow> cp_model" where
  "add_one_shift feasible model =
     fold (\<lambda>(e_idx, shifts).
             Add (Le (py_sum (map (\<lambda>s_idx. Var (X e_idx s_idx)) [0..<length shifts])) (Num 1)))
          (enumerate 0 feasible) model"

text \<open>Lines 102 to 118: the body of the loop over the hours of the day.\<close>

definition cover_terms :: "shift list list \<Rightarrow> int \<Rightarrow> linexpr list" where
  "cover_terms feasible h =
     concat (map (\<lambda>(e_idx, shifts).
                    map (\<lambda>(s_idx, s). Var (X e_idx s_idx))
                        (filter (\<lambda>(s_idx, (start, end)). start \<le> h \<and> h < end)
                                (enumerate 0 shifts)))
                 (enumerate 0 feasible))"

definition add_hour :: "shift list list \<Rightarrow> nat \<Rightarrow> int \<Rightarrow> int \<Rightarrow> int \<Rightarrow> cp_model \<Rightarrow> cp_model" where
  "add_hour feasible n_employees min_workers_per_hour max_workers_per_hour h model =
     (let terms = cover_terms feasible h;
          cov = Var (Coverage h);
          m1 = NewIntVar 0 (int n_employees) (Coverage h) model;
          m2 = Add (Eq cov (if terms \<noteq> [] then py_sum terms else Num 0)) m1;
          m3 = Add (Le cov (Num max_workers_per_hour)) m2;
          m4 = NewIntVar 0 1000 (Understaff h) m3
      in Add (Ge (Plus cov (Var (Understaff h))) (Num min_workers_per_hour)) m4)"

text \<open>Lines 121 to 130: the work-hours variable of one employee.\<close>

definition add_work_hours :: "nat \<times> shift list \<Rightarrow> cp_model \<Rightarrow> cp_model" where
  "add_work_hours p model =
     (case p of (e_idx, shifts) \<Rightarrow>
        Add (Eq (Var (Work_hours e_idx))
                (py_sum (map (\<lambda>s_idx. Times (Var (X e_idx s_idx))
                                             (snd (shifts ! s_idx) - fst (shifts ! s_idx)))
                             [0..<length shifts])))
            (NewIntVar 0 24 (Work_hours e_idx) model))"

text \<open>Lines 85 to 149: the whole model, in the order the source builds it.\<close>

definition build_model ::
  "employee list \<Rightarrow> int \<Rightarrow> int \<Rightarrow> int list \<Rightarrow> int \<Rightarrow> int \<Rightarrow> bool \<Rightarrow> cp_model" where
  "build_model employees day_start_hour day_length_hours allowed_shift_lengths
       min_workers_per_hour max_workers_per_hour max_one_shift_per_employee =
     (let day_end_hour = day_start_hour + day_length_hours;
          hours = py_range day_start_hour day_end_hour;
          all_shifts = build_candidate_shifts day_start_hour day_length_hours allowed_shift_lengths;
          feasible = feasible_shifts employees all_shifts;
          m1 = add_decision_vars feasible CpModel;
          m2 = (if max_one_shift_per_employee then add_one_shift feasible m1 else m1);
          m3 = fold (add_hour feasible (length employees) min_workers_per_hour max_workers_per_hour)
                    hours m2;
          m4 = fold add_work_hours (enumerate 0 feasible) m3;
          work_hours_vars = map (\<lambda>e_idx. Var (Work_hours e_idx)) [0..<length feasible];
          m5 = NewIntVar 0 24 Min_work (NewIntVar 0 24 Max_work m4);
          m6 = AddMinEquality (Var Min_work) work_hours_vars
                 (AddMaxEquality (Var Max_work) work_hours_vars m5);
          m7 = Add (Eq (Var Spread) (Minus (Var Max_work) (Var Min_work)))
                 (NewIntVar 0 24 Spread m6);
          m8 = Add (Eq (Var Total_coverage) (py_sum (map (\<lambda>h. Var (Coverage h)) hours)))
                 (NewIntVar 0 10000 Total_coverage m7);
          m9 = Add (Eq (Var Total_understaff) (py_sum (map (\<lambda>h. Var (Understaff h)) hours)))
                 (NewIntVar 0 10000 Total_understaff m8)
      in Minimize (Plus (Plus (Times (Var Total_understaff) 100000) (Times (Var Spread) 1000))
                        (Var Total_coverage)) m9)"

text \<open>Lines 159 to 166: the first feasible shift whose variable has value 1, if any.\<close>

fun chosen_shift :: "(var \<Rightarrow> int) \<Rightarrow> nat \<Rightarrow> (nat \<times> shift) list \<Rightarrow> shift option" where
  "chosen_shift val e_idx [] = None"
| "chosen_shift val e_idx ((s_idx, s) # rest) =
     (if val (X e_idx s_idx) = 1 then Some s else chosen_shift val e_idx rest)"

record assignment =
  employee :: string
  shift :: "shift option"
  work_hours :: int
  unavailable_sorted :: "int list"

record schedule =
  day_start_hour :: int
  day_end_hour :: int
  min_workers_per_hour :: int
  max_workers_per_hour :: int
  fairness_spread :: int
  total_understaff :: int
  coverage_by_hour :: "(int \<times> int) list"
  understaff_by_hour :: "(int \<times> int) list"
  assignments :: "assignment list"

text \<open>
  The solver API takes the bound of a comparison and the coefficient of a product as
  64-bit integers. For a Python integer outside that range
  \<^verbatim>\<open>model.Add(cov <= max_workers_per_hour)\<close> (line 114), the soft minimum (line 118)
  and the product with the shift length (line 126) raise TypeError. Lines 114 and 118 run
  only when the day has an hour, line 126 only for a feasible shift of some employee.
  The exception leaves the core before the solver is invoked.
\<close>

datatype py_error = TypeError

definition in_int64 :: "int \<Rightarrow> bool" where
  "in_int64 n = (- (2 ^ 63) \<le> n \<and> n < 2 ^ 63)"

definition model_raises :: "int list \<Rightarrow> shift list list \<Rightarrow> int \<Rightarrow> int \<Rightarrow> bool" where
  "model_raises hours feasible min_workers max_workers =
     ((hours \<noteq> [] \<and> (\<not> in_int64 max_workers \<or> \<not> in_int64 min_workers))
      \<or> list_ex (\<lambda>shifts. list_ex (\<lambda>s. \<not> in_int64 (snd s - fst s)) shifts) feasible)"

text \<open>
  What a call of the core yields: the exception that leaves it, or one of the two
  dictionaries it returns.
\<close>

datatype solve_result = Raised py_error | No_solution | Ok (the_schedule: schedule)

text \<open>
  \<^verbatim>\<open>schedule_workers_softmin_hardmax\<close>. The second component of the result lists
  the models on which the solver was invoked during the call. The two dictionaries of
  the result are association lists in the order of the hours. \<open>build_model\<close> is the
  model as built when no call of the solver API raises.
\<close>

definition schedule_workers_softmin_hardmax ::
  "solver \<Rightarrow> employee list \<Rightarrow> int \<Rightarrow> int \<Rightarrow> int list \<Rightarrow> int \<Rightarrow> int \<Rightarrow> bool
     \<Rightarrow> solve_result \<times> cp_model list" where
  "schedule_workers_softmin_hardmax solve employees day_start day_length allowed_shift_lengths
       min_workers max_workers max_one_shift_per_employee =
     (let day_end = day_start + day_length;
          hours = py_range day_start day_end;
          all_shifts = build_candidate_shifts day_start day_length allowed_shift_lengths;
          feasible = feasible_shifts employees all_shifts;
          model = build_model employees day_start day_length allowed_shift_lengths
                    min_workers max_workers max_one_shift_per_employee;
          (status, val) = solve model
      in if model_raises hours feasible min_workers max_workers then (Raised TypeError, [])
         else if status \<noteq> OPTIMAL \<and> status \<noteq> FEASIBLE then (No_solution, [model])
         else
           (let chosen = map (\<lambda>(e_idx, shifts). chosen_shift val e_idx (enumerate 0 shifts))
                             (enumerate 0 feasible)
            in (Ok \<lparr>day_start_hour = day_start,
                    day_end_hour = day_end,
                    min_workers_per_hour = min_workers,
                    max_workers_per_hour = max_workers,
                    fairness_spread = val Spread,
                    total_understaff = val Total_understaff,
                    coverage_by_hour = map (\<lambda>h. (h, val (Coverage h))) hours,
                    understaff_by_hour = map (\<lambda>h. (h, val (Understaff h))) hours,
                    assignments =
                      map (\<lambda>(i, s).
                             \<lparr>employee = name (employees ! i),
                              shift = (case s of Some (a, b) \<Rightarrow> Some (a, b) | None \<Rightarrow> None),
                              work_hours = val (Work_hours i),
                              unavailable_sorted =
                                sorted_list_of_set (get_unavailable (employees ! i))\<rparr>)
                          (enumerate 0 chosen)\<rparr>,
                [model])))"

section \<open>The caller: \<^verbatim>\<open>SchedulerUI.run_scheduler\<close>\<close>

text \<open>
  The fields of the window that \<^verbatim>\<open>run_scheduler\<close> reads and writes: the employee
  list, the four spin boxes and the last result kept for the export.
\<close>

record ui_state =
  employees :: "employee list"
  day_start_var :: int
  day_length_var :: int
  min_cov_var :: int
  max_cov_var :: int
  last_result :: "schedule option"

text \<open>
  What the user sees of one run: an error message box (title and text), an exception
  that no handler of \<^verbatim>\<open>run_scheduler\<close> catches, or the result views filled.
\<close>

datatype ui_outcome = Showerror string string | Uncaught py_error | Rendered

text \<open>
  \<^verbatim>\<open>run_scheduler\<close>: the guards in their order, then the call of the core with the
  fixed lengths \<open>(4, 5)\<close> and one shift per employee. The result is what the user
  sees, the window state afterwards, and the models on which the solver was invoked. An
  exception of the core passes through before anything is written. The contents of the
  result table and of the coverage text are left out.
\<close>

definition run_scheduler ::
  "solver \<Rightarrow> ui_state \<Rightarrow> ui_outcome \<times> ui_state \<times> cp_model list" where
  "run_scheduler solve ui =
     (if length (employees ui) = 0
      then (Showerror ''No employees'' ''Add at least one employee.'', ui, [])
      else
        (let day_start = day_start_var ui;
             day_len = day_length_var ui;
             min_cov = min_cov_var ui;
             max_cov = max_cov_var ui
         in if min_cov < 0 \<or> max_cov < 0
            then (Showerror ''Invalid coverage'' ''Min/Max workers/hour must be >= 0.'', ui, [])
            else if min_cov > max_cov
            then (Showerror ''Invalid coverage''
                    ''Min workers/hour cannot be greater than Max workers/hour.'', ui, [])
            else
              (case schedule_workers_softmin_hardmax solve (employees ui) day_start day_len
                      [4, 5] min_cov max_cov True of
                 (Raised e, solved) \<Rightarrow> (Uncaught e, ui, solved)
               | (No_solution, solved) \<Rightarrow>
                   (Showerror ''No solution''
                      ''Solver did not find a schedule (unexpected with soft min).'',
                    ui\<lparr>last_result := None\<rparr>, solved)
               | (Ok result, solved) \<Rightarrow> (Rendered, ui\<lparr>last_result := Some result\<rparr>, solved))))"

section \<open>Notions used to state the properties\<close>

text \<open>The feasible shifts of an employee whose decision variable has value 1.\<close>

definition selected_shifts :: "(var \<Rightarrow> int) \<Rightarrow> nat \<Rightarrow> shift list \<Rightarrow> shift list" where
  "selected_shifts val e_idx shifts =
     map (\<lambda>s_idx. shifts ! s_idx) (filter (\<lambda>s_idx. val (X e_idx s_idx) = 1) [0..<length shifts])"

text \<open>
  The valuation in which nobody works: every decision, coverage and work-hours variable
  is 0 and every hour is short by the soft minimum (by nothing when that is negative).
\<close>

definition idle_values :: "nat \<Rightarrow> int \<Rightarrow> var \<Rightarrow> int" where
  "idle_values n_hours min_workers x =
     (case x of
        Understaff h \<Rightarrow> max 0 min_workers
      | Total_understaff \<Rightarrow> int n_hours * max 0 min_workers
      | _ \<Rightarrow> 0)"

section \<open>Concrete runs\<close>

text \<open>
  Two employees on a day from 8 with 5 hours and lengths 4 and 5: the candidates are
  \<open>(8, 12)\<close>, \<open>(9, 13)\<close>, \<open>(8, 13)\<close>; Alex is busy at 8 and can only work \<open>(9, 13)\<close>,
  Brianna is busy at 10 and can work none. The values assign Alex that shift and leave
  hour 8 one worker short.
\<close>

definition example_employees :: "employee list" where
  "example_employees = [\<lparr>name = ''Alex'', unavailable = Some {8}\<rparr>,
                        \<lparr>name = ''Brianna'', unavailable = Some {10}\<rparr>]"

definition example_values :: "var \<Rightarrow> int" where
  "example_values x =
     (case x of
        X e_idx s_idx \<Rightarrow> 1
      | Coverage h \<Rightarrow> (if h = 8 then 0 else 1)
      | Understaff h \<Rightarrow> (if h = 8 then 1 else 0)
      | Work_hours e_idx \<Rightarrow> (if e_idx = 0 then 4 else 0)
      | Max_work \<Rightarrow> 4
      | Min_work \<Rightarrow> 0
      | Spread \<Rightarrow> 4
      | Total_coverage \<Rightarrow> 4
      | Total_understaff \<Rightarrow> 1)"

definition example_schedule :: schedule where
  "example_schedule =
     \<lparr>day_start_hour = 8, day_end_hour = 13, min_workers_per_hour = 1,
      max_workers_per_hour = 2, fairness_spread = 4, total_understaff = 1,
      coverage_by_hour = [(8, 0), (9, 1), (10, 1), (11, 1), (12, 1)],
      understaff_by_hour = [(8, 1), (9, 0), (10, 0), (11, 0), (12, 0)],
      assignments =
        [\<lparr>employee = ''Alex'', shift = Some (9, 13), work_hours = 4, unavailable_sorted = [8]\<rparr>,
         \<lparr>employee = ''Brianna'', shift = None, work_hours = 0, unavailable_sorted = [10]\<rparr>]\<rparr>"

text \<open>
  Two employees free during the whole of the same day, each with the three candidates
  as feasible shifts: Faith works \<open>(8, 12)\<close>, her first, and Gabriel \<open>(9, 13)\<close>, his
  second.
\<close>

definition pair_employees :: "employee list" where
  "pair_employees = [\<lparr>name = ''Faith'', unavailable = Some {}\<rparr>,
                     \<lparr>name = ''Gabriel'', unavailable = Some {13}\<rparr>]"

definition pair_values :: "var \<Rightarrow> int" where
  "pair_values x =
     (case x of
        X e_idx s_idx \<Rightarrow> (if (e_idx = 0 \<and> s_idx = 0) \<or> (e_idx = 1 \<and> s_idx = 1) then 1 else 0)
      | Coverage h \<Rightarrow> (if h = 8 \<or> h = 12 then 1 else 2)
      | Understaff h \<Rightarrow> 0
      | Work_hours e_idx \<Rightarrow> 4
      | Max_work \<Rightarrow> 4
      | Min_work \<Rightarrow> 4
      | Spread \<Rightarrow> 0
      | Total_coverage \<Rightarrow> 8
      | Total_understaff \<Rightarrow> 0)"

definition pair_schedule :: schedule where
  "pair_schedule =
     \<lparr>day_start_hour = 8, day_end_hour = 13, min_workers_per_hour = 1,
      max_workers_per_hour = 2, fairness_spread = 0, total_understaff = 0,
      coverage_by_hour = [(8, 1), (9, 2), (10, 2), (11, 2), (12, 1)],
      understaff_by_hour = [(8, 0), (9, 0), (10, 0), (11, 0), (12, 0)],
      assignments =
        [\<lparr>employee = ''Faith'', shift = Some (8, 12), work_hours = 4, unavailable_sorted = []\<rparr>,
         \<lparr>employee = ''Gabriel'', shift = Some (9, 13), work_hours = 4,
           unavailable_sorted = [13]\<rparr>]\<rparr>"

text \<open>Runs on a day too short for any shift, on an empty day, with the minimum above
  the maximum, and without employees.\<close>

definition zero_values :: "var \<Rightarrow> int" where
  "zero_values x = 0"

definition short_day_values :: "var \<Rightarrow> int" where
  "short_day_values x = (case x of Understaff h \<Rightarrow> 1 | Total_understaff \<Rightarrow> 3 | _ \<Rightarrow> 0)"

definition short_day_ui :: ui_state where
  "short_day_ui = \<lparr>employees = [\<lparr>name = ''Alex'', unavailable = Some {}\<rparr>],
                    day_start_var = 8, day_length_var = 3, min_cov_var = 1, max_cov_var = 2,
                    last_result = None\<rparr>"

definition empty_day_ui :: ui_state where
  "empty_day_ui = \<lparr>employees = [\<lparr>name = ''Alex'', unavailable = Some {}\<rparr>],
                    day_start_var = 8, day_length_var = 0, min_cov_var = 1, max_cov_var = 2,
                    last_result = None\<rparr>"

definition bad_coverage_ui :: ui_state where
  "bad_coverage_ui = \<lparr>employees = [\<lparr>name = ''Alex'', unavailable = Some {}\<rparr>],
                       day_start_var = 8, day_length_var = 12, min_cov_var = 3, max_cov_var = 2,
                       last_result = None\<rparr>"

definition no_employees_ui :: ui_state where
  "no_employees_ui = \<lparr>employees = [], day_start_var = 8, day_length_var = 12,
                       min_cov_var = 1, max_cov_var = 2, last_result = None\<rparr>"

section \<open>Candidate shifts and filter: basic facts\<close>

lemma set_py_range: "set (py_range a b) = {h. a \<le> h \<and> h < b}"
  by (auto simp: py_range_def)

lemma py_range_empty: "b \<le> a \<Longrightarrow> py_range a b = []"
  by (simp add: py_range_def)

lemma hour_in_blocks_iff: "hour_in_blocks hs U \<longleftrightarrow> (\<exists>h\<in>set hs. h \<in> U)"
  by (induction hs) auto

lemma overlaps_unavailability_iff:
  "overlaps_unavailability (s, e) U \<longleftrightarrow> (\<exists>h. s \<le> h \<and> h < e \<and> h \<in> U)"
  by (auto simp: overlaps_unavailability_def hour_in_blocks_iff set_py_range)

lemma set_build_candidate_shifts:
  "set (build_candidate_shifts ds dl ls) =
     {(start, start + L) | start L. L \<in> set ls \<and> ds \<le> start \<and> start + L \<le> ds + dl}"
  by (auto simp: build_candidate_shifts_def set_py_range)

section \<open>The model built by the core\<close>

lemma fold_constraints:
  assumes "\<And>x m. constraints (f x m) = constraints m @ g x"
  shows "constraints (fold f xs m) = constraints m @ concat (map g xs)"
  by (induction xs arbitrary: m) (simp_all add: assms)

lemma fold_variables:
  assumes "\<And>x m. variables (f x m) = variables m @ g x"
  shows "variables (fold f xs m) = variables m @ concat (map g xs)"
  by (induction xs arbitrary: m) (simp_all add: assms)

lemma fold_constraints_same:
  assumes "\<And>x m. constraints (f x m) = constraints m"
  shows "constraints (fold f xs m) = constraints m"
  by (induction xs arbitrary: m) (simp_all add: assms)

lemma fold_variables_same:
  assumes "\<And>x m. variables (f x m) = variables m"
  shows "variables (fold f xs m) = variables m"
  by (induction xs arbitrary: m) (simp_all add: assms)

lemma fold_constraints_one:
  assumes "\<And>x m. constraints (f x m) = constraints m @ [g x]"
  shows "constraints (fold f xs m) = constraints m @ map g xs"
  by (induction xs arbitrary: m) (simp_all add: assms)

lemma constraints_NewIntVar [simp]: "constraints (NewIntVar lb ub x m) = constraints m"
  by (simp add: NewIntVar_def)

lemma variables_NewIntVar [simp]: "variables (NewIntVar lb ub x m) = variables m @ [(x, lb, ub)]"
  by (simp add: NewIntVar_def)

lemma constraints_Add [simp]: "constraints (Add c m) = constraints m @ [c]"
  by (simp add: Add_def)

lemma variables_Add [simp]: "variables (Add c m) = variables m"
  by (simp add: Add_def)

lemma constraints_Minimize [simp]: "constraints (Minimize e m) = constraints m"
  by (simp add: Minimize_def)

lemma variables_Minimize [simp]: "variables (Minimize e m) = variables m"
  by (simp add: Minimize_def)

lemma objective_Minimize [simp]: "objective (Minimize e m) = Some e"
  by (simp add: Minimize_def)

lemma constraints_add_decision_vars [simp]:
  "constraints (add_decision_vars F m) = constraints m"
  unfolding add_decision_vars_def
  by (rule fold_constraints_same) (auto simp: NewBoolVar_def intro!: fold_constraints_same)

lemma variables_add_decision_vars:
  "variables (add_decision_vars F m) = variables m @
     concat (map (\<lambda>(e_idx, shifts). map (\<lambda>(s_idx, s). (X e_idx s_idx, 0, 1)) (enumerate 0 shifts))
                 (enumerate 0 F))"
proof -
  have inner: "variables (fold (\<lambda>(s_idx, s). NewBoolVar (X e s_idx)) ps m') =
      variables m' @ map (\<lambda>(s_idx, s). (X e s_idx, 0, 1)) ps" for e ps m'
    by (induction ps arbitrary: m') (auto simp: NewBoolVar_def)
  show ?thesis
    unfolding add_decision_vars_def
    by (rule fold_variables) (auto simp: inner)
qed

lemma variables_add_one_shift [simp]: "variables (add_one_shift F m) = variables m"
  unfolding add_one_shift_def by (rule fold_variables_same) auto

lemma constraints_add_one_shift:
  "constraints (add_one_shift F m) = constraints m @
     map (\<lambda>(e_idx, shifts).
            Le (py_sum (map (\<lambda>s_idx. Var (X e_idx s_idx)) [0..<length shifts])) (Num 1))
         (enumerate 0 F)"
  unfolding add_one_shift_def by (rule fold_constraints_one) auto

lemma variables_add_hour:
  "variables (add_hour F n mn mx h m) =
     variables m @ [(Coverage h, 0, int n), (Understaff h, 0, 1000)]"
  by (simp add: add_hour_def Let_def)

lemma constraints_add_hour:
  "constraints (add_hour F n mn mx h m) = constraints m @
     [Eq (Var (Coverage h)) (if cover_terms F h \<noteq> [] then py_sum (cover_terms F h) else Num 0),
      Le (Var (Coverage h)) (Num mx),
      Ge (Plus (Var (Coverage h)) (Var (Understaff h))) (Num mn)]"
  by (simp add: add_hour_def Let_def)

lemma variables_add_work_hours:
  "variables (add_work_hours p m) = variables m @ [(Work_hours (fst p), 0, 24)]"
  by (simp add: add_work_hours_def split: prod.splits)

lemma constraints_add_work_hours:
  "constraints (add_work_hours p m) = constraints m @
     [Eq (Var (Work_hours (fst p)))
         (py_sum (map (\<lambda>s_idx. Times (Var (X (fst p) s_idx))
                                      (snd (snd p ! s_idx) - fst (snd p ! s_idx)))
                      [0..<length (snd p)]))]"
  by (simp add: add_work_hours_def split: prod.splits)

lemma constraints_build_model:
  "constraints (build_model emps ds dl ls mn mx one) =
     (let hours = py_range ds (ds + dl);
          F = feasible_shifts emps (build_candidate_shifts ds dl ls);
          whs = map (\<lambda>e_idx. Var (Work_hours e_idx)) [0..<length F]
      in (if one
          then map (\<lambda>(e_idx, shifts).
                 Le (py_sum (map (\<lambda>s_idx. Var (X e_idx s_idx)) [0..<length shifts])) (Num 1))
               (enumerate 0 F)
          else [])
         @ concat (map (\<lambda>h.
             [Eq (Var (Coverage h))
                 (if cover_terms F h \<noteq> [] then py_sum (cover_terms F h) else Num 0),
              Le (Var (Coverage h)) (Num mx),
              Ge (Plus (Var (Coverage h)) (Var (Understaff h))) (Num mn)]) hours)
         @ map (\<lambda>p. Eq (Var (Work_hours (fst p)))
                   (py_sum (map (\<lambda>s_idx. Times (Var (X (fst p) s_idx))
                                      (snd (snd p ! s_idx) - fst (snd p ! s_idx)))
                      [0..<length (snd p)])))
               (enumerate 0 F)
         @ [Max_equality (Var Max_work) whs,
            Min_equality (Var Min_work) whs,
            Eq (Var Spread) (Minus (Var Max_work) (Var Min_work)),
            Eq (Var Total_coverage) (py_sum (map (\<lambda>h. Var (Coverage h)) hours)),
            Eq (Var Total_understaff) (py_sum (map (\<lambda>h. Var (Understaff h)) hours))])"
  unfolding build_model_def Let_def
  by (simp add: AddMaxEquality_def AddMinEquality_def
        fold_constraints_one [where f = add_work_hours, OF constraints_add_work_hours]
        fold_constraints [where f = "add_hour F n mn mx" for F n, OF constraints_add_hour]
        constraints_add_one_shift CpModel_def)

lemma variables_build_model:
  "variables (build_model emps ds dl ls mn mx one) =
     (let hours = py_range ds (ds + dl);
          F = feasible_shifts emps (build_candidate_shifts ds dl ls)
      in concat (map (\<lambda>(e_idx, shifts). map (\<lambda>(s_idx, s). (X e_idx s_idx, 0, 1)) (enumerate 0 shifts))
                 (enumerate 0 F))
         @ concat (map (\<lambda>h. [(Coverage h, 0, int (length emps)), (Understaff h, 0, 1000)]) hours)
         @ concat (map (\<lambda>p. [(Work_hours (fst p), 0, 24)]) (enumerate 0 F))
         @ [(Max_work, 0, 24), (Min_work, 0, 24), (Spread, 0, 24),
            (Total_coverage, 0, 10000), (Total_understaff, 0, 10000)])"
  unfolding build_model_def Let_def
  by (simp add: AddMaxEquality_def AddMinEquality_def
        fold_variables [where f = add_work_hours, OF variables_add_work_hours]
        fold_variables [where f = "add_hour F n mn mx" for F n, OF variables_add_hour]
        variables_add_decision_vars CpModel_def)

lemma objective_build_model:
  "objective (build_model emps ds dl ls mn mx one) =
     Some (Plus (Plus (Times (Var Total_understaff) 100000) (Times (Var Spread) 1000))
                (Var Total_coverage))"
  by (simp add: build_model_def Let_def)

section \<open>The result of the core\<close>

lemma shift_copy: "(case s of None \<Rightarrow> None | Some (a, b) \<Rightarrow> Some (a, b)) = s"
  by (cases s) auto

lemma snd_schedule:
  "snd (schedule_workers_softmin_hardmax solve emps ds dl ls mn mx one) =
     (if model_raises (py_range ds (ds + dl))
           (feasible_shifts emps (build_candidate_shifts ds dl ls)) mn mx
      then [] else [build_model emps ds dl ls mn mx one])"
  by (simp add: schedule_workers_softmin_hardmax_def Let_def split: prod.splits)

lemma length_feasible_shifts [simp]: "length (feasible_shifts emps all) = length emps"
  by (simp add: feasible_shifts_def)

lemma nth_feasible_shifts:
  "i < length emps \<Longrightarrow> feasible_shifts emps all ! i =
     filter (\<lambda>s. \<not> overlaps_unavailability s (get_unavailable (emps ! i))) all"
  by (simp add: feasible_shifts_def)

lemma schedule_Ok:
  assumes "fst (schedule_workers_softmin_hardmax solve emps ds dl ls mn mx one) = Ok r"
    and "solve (build_model emps ds dl ls mn mx one) = (st, v)"
  shows "st = OPTIMAL \<or> st = FEASIBLE"
    and "coverage_by_hour r = map (\<lambda>h. (h, v (Coverage h))) (py_range ds (ds + dl))"
    and "understaff_by_hour r = map (\<lambda>h. (h, v (Understaff h))) (py_range ds (ds + dl))"
    and "fairness_spread r = v Spread"
    and "total_understaff r = v Total_understaff"
    and "max_workers_per_hour r = mx"
    and "min_workers_per_hour r = mn"
    and "length (assignments r) = length emps"
    and "\<And>i. i < length emps \<Longrightarrow> shift (assignments r ! i) =
           chosen_shift v i (enumerate 0 (feasible_shifts emps (build_candidate_shifts ds dl ls) ! i))"
    and "\<And>i. i < length emps \<Longrightarrow> work_hours (assignments r ! i) = v (Work_hours i)"
    and "\<And>i. i < length emps \<Longrightarrow> employee (assignments r ! i) = name (emps ! i)"
  using assms
  by (auto simp: schedule_workers_softmin_hardmax_def Let_def nth_enumerate_eq shift_copy
      split: if_splits)

lemma solver_sound_satisfies:
  "solver_sound solve \<Longrightarrow> solve M = (st, v) \<Longrightarrow> st = OPTIMAL \<or> st = FEASIBLE \<Longrightarrow> satisfies M v"
  unfolding solver_sound_def by (drule spec [of _ M]) auto

lemma checking_solver_sound: "solver_sound (checking_solver c)"
  by (simp add: solver_sound_def checking_solver_def)

lemma map_of_tabulate:
  "map_of (map (\<lambda>h. (h, f h)) hs) h = (if h \<in> set hs then Some (f h) else None)"
  by (induction hs) auto

lemma chosen_shift_Some:
  "chosen_shift v e (enumerate n xs) = Some s \<Longrightarrow>
     \<exists>k<length xs. xs ! k = s \<and> v (X e (n + k)) = 1"
proof (induction xs arbitrary: n)
  case Nil
  then show ?case by simp
next
  case (Cons x xs)
  show ?case
  proof (cases "v (X e n) = 1")
    case True
    with Cons.prems have "x = s" by simp
    with True show ?thesis by (intro exI [of _ 0]) simp
  next
    case False
    with Cons.prems have "chosen_shift v e (enumerate (Suc n) xs) = Some s" by simp
    from Cons.IH [OF this] obtain k where "k < length xs" "xs ! k = s" "v (X e (Suc n + k)) = 1"
      by blast
    then show ?thesis by (intro exI [of _ "Suc k"]) simp
  qed
qed

lemma chosen_shift_None:
  "chosen_shift v e (enumerate n xs) = None \<longleftrightarrow> (\<forall>k<length xs. v (X e (n + k)) \<noteq> 1)"
proof (induction xs arbitrary: n)
  case Nil
  then show ?case by simp
next
  case (Cons x xs)
  have "(\<forall>k<Suc (length xs). v (X e (n + k)) \<noteq> 1) \<longleftrightarrow>
        v (X e n) \<noteq> 1 \<and> (\<forall>k<length xs. v (X e (Suc n + k)) \<noteq> 1)"
    by (auto simp: less_Suc_eq_0_disj)
  with Cons.IH [of "Suc n"] show ?case by simp
qed

lemma eval_foldl_Plus: "eval v (foldl Plus a es) = eval v a + sum_list (map (eval v) es)"
  by (induction es arbitrary: a) simp_all

lemma eval_py_sum: "eval v (py_sum es) = sum_list (map (eval v) es)"
  by (simp add: py_sum_def eval_foldl_Plus)

lemma satisfies_constraint:
  "satisfies M v \<Longrightarrow> c \<in> set (constraints M) \<Longrightarrow> holds v c"
  by (simp add: satisfies_def list_all_iff)

lemma satisfies_domain:
  "satisfies M v \<Longrightarrow> (x, lb, ub) \<in> set (variables M) \<Longrightarrow> lb \<le> v x \<and> v x \<le> ub"
  by (auto simp: satisfies_def list_all_iff in_domain_def)

lemma sat_hour_constraints:
  assumes sat: "satisfies (build_model emps ds dl ls mn mx one) v"
    and h: "ds \<le> h" "h < ds + dl"
  shows "v (Coverage h) \<le> mx"
    and "mn \<le> v (Coverage h) + v (Understaff h)"
    and "v (Coverage h) =
           sum_list (map (eval v) (cover_terms (feasible_shifts emps (build_candidate_shifts ds dl ls)) h))"
proof -
  let ?F = "feasible_shifts emps (build_candidate_shifts ds dl ls)"
  have hin: "h \<in> set (py_range ds (ds + dl))" using h by (simp add: set_py_range)
  have "Le (Var (Coverage h)) (Num mx) \<in> set (constraints (build_model emps ds dl ls mn mx one))"
    using hin by (simp add: constraints_build_model Let_def)
  from satisfies_constraint [OF sat this] show "v (Coverage h) \<le> mx" by simp
  have "Ge (Plus (Var (Coverage h)) (Var (Understaff h))) (Num mn)
          \<in> set (constraints (build_model emps ds dl ls mn mx one))"
    using hin by (simp add: constraints_build_model Let_def)
  from satisfies_constraint [OF sat this] show "mn \<le> v (Coverage h) + v (Understaff h)" by simp
  have "Eq (Var (Coverage h)) (if cover_terms ?F h \<noteq> [] then py_sum (cover_terms ?F h) else Num 0)
          \<in> set (constraints (build_model emps ds dl ls mn mx one))"
    using hin by (simp add: constraints_build_model Let_def)
  from satisfies_constraint [OF sat this]
  show "v (Coverage h) = sum_list (map (eval v) (cover_terms ?F h))"
    by (simp add: eval_py_sum split: if_splits)
qed

lemma sat_hour_domains:
  assumes sat: "satisfies (build_model emps ds dl ls mn mx one) v"
    and h: "ds \<le> h" "h < ds + dl"
  shows "0 \<le> v (Understaff h)" and "v (Understaff h) \<le> 1000"
    and "0 \<le> v (Coverage h)" and "v (Coverage h) \<le> int (length emps)"
proof -
  have hin: "h \<in> set (py_range ds (ds + dl))" using h by (simp add: set_py_range)
  have "(Understaff h, 0, 1000) \<in> set (variables (build_model emps ds dl ls mn mx one))"
    using hin by (simp add: variables_build_model Let_def)
  from satisfies_domain [OF sat this]
  show "0 \<le> v (Understaff h)" and "v (Understaff h) \<le> 1000" by simp_all
  have "(Coverage h, 0, int (length emps)) \<in> set (variables (build_model emps ds dl ls mn mx one))"
    using hin by (simp add: variables_build_model Let_def)
  from satisfies_domain [OF sat this]
  show "0 \<le> v (Coverage h)" and "v (Coverage h) \<le> int (length emps)" by simp_all
qed

lemma x_var_declared:
  assumes "i < length F" and "k < length (F ! i)"
  shows "(X i k, 0, 1) \<in> set (concat (map (\<lambda>(e_idx, shifts).
            map (\<lambda>(s_idx, s). (X e_idx s_idx, 0, 1)) (enumerate 0 shifts)) (enumerate 0 F)))"
proof -
  have "(i, F ! i) \<in> set (enumerate 0 F)" using assms(1) by (simp add: in_set_enumerate_eq)
  moreover have "(k, F ! i ! k) \<in> set (enumerate 0 (F ! i))"
    using assms(2) by (simp add: in_set_enumerate_eq)
  ultimately show ?thesis by force
qed

lemma sat_x_domain:
  assumes sat: "satisfies (build_model emps ds dl ls mn mx one) v"
    and "i < length emps"
    and "k < length (feasible_shifts emps (build_candidate_shifts ds dl ls) ! i)"
  shows "v (X i k) = 0 \<or> v (X i k) = 1"
proof -
  have "(X i k, 0, 1) \<in> set (concat (map (\<lambda>(e_idx, shifts).
            map (\<lambda>(s_idx, s). (X e_idx s_idx, 0, 1)) (enumerate 0 shifts))
            (enumerate 0 (feasible_shifts emps (build_candidate_shifts ds dl ls)))))"
    by (rule x_var_declared) (simp_all add: assms(2,3))
  then have "(X i k, 0, 1) \<in> set (variables (build_model emps ds dl ls mn mx one))"
    unfolding variables_build_model Let_def set_append Un_iff by (rule disjI1)
  from satisfies_domain [OF sat this] show ?thesis by auto
qed

lemma sat_one_shift:
  assumes sat: "satisfies (build_model emps ds dl ls mn mx True) v"
    and "i < length emps"
  shows "sum_list (map (\<lambda>k. v (X i k))
           [0..<length (feasible_shifts emps (build_candidate_shifts ds dl ls) ! i)]) \<le> 1"
proof -
  let ?F = "feasible_shifts emps (build_candidate_shifts ds dl ls)"
  have "(i, ?F ! i) \<in> set (enumerate 0 ?F)" using assms(2) by (simp add: in_set_enumerate_eq)
  then have "Le (py_sum (map (\<lambda>s_idx. Var (X i s_idx)) [0..<length (?F ! i)])) (Num 1)
      \<in> set (constraints (build_model emps ds dl ls mn mx True))"
    by (force simp: constraints_build_model Let_def)
  from satisfies_constraint [OF sat this] show ?thesis
    by (simp add: eval_py_sum comp_def)
qed

lemma sat_work_hours:
  assumes sat: "satisfies (build_model emps ds dl ls mn mx one) v"
    and "i < length emps"
  shows "v (Work_hours i) = sum_list (map (\<lambda>k. v (X i k) *
             (snd (feasible_shifts emps (build_candidate_shifts ds dl ls) ! i ! k)
              - fst (feasible_shifts emps (build_candidate_shifts ds dl ls) ! i ! k)))
           [0..<length (feasible_shifts emps (build_candidate_shifts ds dl ls) ! i)])"
proof -
  let ?F = "feasible_shifts emps (build_candidate_shifts ds dl ls)"
  have "(i, ?F ! i) \<in> set (enumerate 0 ?F)" using assms(2) by (simp add: in_set_enumerate_eq)
  then have "Eq (Var (Work_hours i))
         (py_sum (map (\<lambda>s_idx. Times (Var (X i s_idx))
                                      (snd (?F ! i ! s_idx) - fst (?F ! i ! s_idx)))
                      [0..<length (?F ! i)]))
      \<in> set (constraints (build_model emps ds dl ls mn mx one))"
    by (force simp: constraints_build_model Let_def)
  from satisfies_constraint [OF sat this] show ?thesis
    by (simp add: eval_py_sum comp_def)
qed

lemma sat_globals:
  assumes sat: "satisfies (build_model emps ds dl ls mn mx one) v"
  shows "v Spread = v Max_work - v Min_work"
    and "v Total_coverage = sum_list (map (\<lambda>h. v (Coverage h)) (py_range ds (ds + dl)))"
    and "v Total_understaff = sum_list (map (\<lambda>h. v (Understaff h)) (py_range ds (ds + dl)))"
    and "\<exists>i<length emps. v Max_work = v (Work_hours i)"
    and "\<forall>i<length emps. v (Work_hours i) \<le> v Max_work"
    and "\<exists>i<length emps. v Min_work = v (Work_hours i)"
    and "\<forall>i<length emps. v Min_work \<le> v (Work_hours i)"
proof -
  let ?M = "build_model emps ds dl ls mn mx one"
  have "Eq (Var Spread) (Minus (Var Max_work) (Var Min_work)) \<in> set (constraints ?M)"
    by (simp add: constraints_build_model Let_def)
  from satisfies_constraint [OF sat this] show "v Spread = v Max_work - v Min_work" by simp
  have "Eq (Var Total_coverage) (py_sum (map (\<lambda>h. Var (Coverage h)) (py_range ds (ds + dl))))
      \<in> set (constraints ?M)"
    by (simp add: constraints_build_model Let_def)
  from satisfies_constraint [OF sat this]
  show "v Total_coverage = sum_list (map (\<lambda>h. v (Coverage h)) (py_range ds (ds + dl)))"
    by (simp add: eval_py_sum comp_def)
  have "Eq (Var Total_understaff) (py_sum (map (\<lambda>h. Var (Understaff h)) (py_range ds (ds + dl))))
      \<in> set (constraints ?M)"
    by (simp add: constraints_build_model Let_def)
  from satisfies_constraint [OF sat this]
  show "v Total_understaff = sum_list (map (\<lambda>h. v (Understaff h)) (py_range ds (ds + dl)))"
    by (simp add: eval_py_sum comp_def)
  have "Max_equality (Var Max_work) (map (\<lambda>e_idx. Var (Work_hours e_idx)) [0..<length emps])
      \<in> set (constraints ?M)"
    by (simp add: constraints_build_model Let_def)
  from satisfies_constraint [OF sat this]
  show "\<exists>i<length emps. v Max_work = v (Work_hours i)"
    and "\<forall>i<length emps. v (Work_hours i) \<le> v Max_work"
    by (auto simp: list_ex_iff list_all_iff)
  have "Min_equality (Var Min_work) (map (\<lambda>e_idx. Var (Work_hours e_idx)) [0..<length emps])
      \<in> set (constraints ?M)"
    by (simp add: constraints_build_model Let_def)
  from satisfies_constraint [OF sat this]
  show "\<exists>i<length emps. v Min_work = v (Work_hours i)"
    and "\<forall>i<length emps. v Min_work \<le> v (Work_hours i)"
    by (auto simp: list_ex_iff list_all_iff)
qed

lemma sum_01_count:
  "\<forall>k\<in>set ks. f k = 0 \<or> f k = (1::int) \<Longrightarrow>
     sum_list (map f ks) = int (length (filter (\<lambda>k. f k = 1) ks))"
  by (induction ks) auto

lemma sum_01_selected:
  "\<forall>k\<in>set ks. f k = 0 \<or> f k = (1::int) \<Longrightarrow>
     sum_list (map (\<lambda>k. f k * g k) ks) = sum_list (map g (filter (\<lambda>k. f k = 1) ks))"
  by (induction ks) auto

section \<open>When the core returns\<close>

lemma candidate_lengths_in_int64:
  assumes "dl \<le> 24" and "\<forall>L\<in>set ls. 0 < L"
    and "s \<in> set (build_candidate_shifts ds dl ls)"
  shows "in_int64 (snd s - fst s)"
proof -
  from assms(3) obtain start L where s: "s = (start, start + L)" and L: "L \<in> set ls"
    and fit: "ds \<le> start" "start + L \<le> ds + dl"
    by (auto simp: set_build_candidate_shifts)
  from L assms(2) have "0 < L" by blast
  moreover from fit assms(1) have "L \<le> 24" by simp
  ultimately show ?thesis by (simp add: s in_int64_def)
qed

lemma no_raise_in_day:
  assumes "dl \<le> 24" and "\<forall>L\<in>set ls. 0 < L" and "in_int64 mn" and "in_int64 mx"
  shows "\<not> model_raises (py_range ds (ds + dl))
            (feasible_shifts emps (build_candidate_shifts ds dl ls)) mn mx"
proof -
  have "in_int64 (snd s - fst s)"
    if "shifts \<in> set (feasible_shifts emps (build_candidate_shifts ds dl ls))" "s \<in> set shifts"
    for shifts s
  proof -
    from that have "s \<in> set (build_candidate_shifts ds dl ls)"
      by (auto simp: feasible_shifts_def)
    then show ?thesis by (rule candidate_lengths_in_int64 [OF assms(1,2)])
  qed
  then show ?thesis using assms(3,4) by (auto simp: model_raises_def list_ex_iff)
qed

lemma schedule_not_raised:
  assumes "\<not> model_raises (py_range ds (ds + dl))
              (feasible_shifts emps (build_candidate_shifts ds dl ls)) mn mx"
    and "solve (build_model emps ds dl ls mn mx one) = (st, v)"
  shows "st \<noteq> OPTIMAL \<Longrightarrow> st \<noteq> FEASIBLE \<Longrightarrow>
           fst (schedule_workers_softmin_hardmax solve emps ds dl ls mn mx one) = No_solution"
    and "st = OPTIMAL \<or> st = FEASIBLE \<Longrightarrow>
           \<exists>r. fst (schedule_workers_softmin_hardmax solve emps ds dl ls mn mx one) = Ok r"
  using assms by (auto simp: schedule_workers_softmin_hardmax_def Let_def)

lemma idle_values_simps [simp]:
  "idle_values n mn (X e k) = 0"
  "idle_values n mn (Coverage h) = 0"
  "idle_values n mn (Understaff h) = max 0 mn"
  "idle_values n mn (Work_hours e) = 0"
  "idle_values n mn Max_work = 0"
  "idle_values n mn Min_work = 0"
  "idle_values n mn Spread = 0"
  "idle_values n mn Total_coverage = 0"
  "idle_values n mn Total_understaff = int n * max 0 mn"
  by (simp_all add: idle_values_def)

lemma eval_cover_terms_idle:
  "t \<in> set (cover_terms F h) \<Longrightarrow> eval (idle_values n mn) t = 0"
  by (auto simp: cover_terms_def)

lemma sum_list_all_zero: "(\<And>x. x \<in> set xs \<Longrightarrow> f x = (0::int)) \<Longrightarrow> sum_list (map f xs) = 0"
  by (induction xs) simp_all

lemma idle_values_satisfy:
  assumes "emps \<noteq> []" and "0 \<le> mx" and "mn \<le> 1000"
    and "int (length (py_range ds (ds + dl))) * max 0 mn \<le> 10000"
  shows "satisfies (build_model emps ds dl ls mn mx one)
           (idle_values (length (py_range ds (ds + dl))) mn)"
proof -
  let ?n = "length (py_range ds (ds + dl))"
  let ?v = "idle_values ?n mn"
  let ?F = "feasible_shifts emps (build_candidate_shifts ds dl ls)"
  have cover: "sum_list (map (eval ?v) (cover_terms ?F h)) = 0" for h
    by (rule sum_list_all_zero) (rule eval_cover_terms_idle)
  have under: "sum_list (map (\<lambda>h. max 0 mn) (py_range ds (ds + dl))) = int ?n * max 0 mn"
    by (simp add: sum_list_triv)
  have nonneg: "0 \<le> int ?n * max 0 mn" by simp
  have workers: "0 < length emps" using assms(1) by simp
  have doms: "list_all (in_domain ?v) (variables (build_model emps ds dl ls mn mx one))"
    using assms(3,4) nonneg
    by (auto simp: variables_build_model Let_def list_all_iff in_domain_def)
  have cons: "list_all (holds ?v) (constraints (build_model emps ds dl ls mn mx one))"
    using assms(2) workers
    by (auto simp: constraints_build_model Let_def list_all_iff list_ex_iff eval_py_sum
          comp_def cover under)
  from doms cons show ?thesis by (simp add: satisfies_def)
qed

section \<open>The concrete runs evaluated\<close>

lemma example_satisfies:
  "satisfies (build_model example_employees 8 5 [4, 5] 1 2 True) example_values"
  by code_simp

lemma example_solve:
  "checking_solver example_values (build_model example_employees 8 5 [4, 5] 1 2 True)
     = (FEASIBLE, example_values)"
  by (simp add: checking_solver_def example_satisfies)

lemma example_run:
  "fst (schedule_workers_softmin_hardmax (checking_solver example_values)
          example_employees 8 5 [4, 5] 1 2 True) = Ok example_schedule"
  by code_simp

lemma example_feasible:
  "feasible_shifts example_employees (build_candidate_shifts 8 5 [4, 5]) = [[(9, 13)], []]"
  by code_simp

lemma pair_satisfies:
  "satisfies (build_model pair_employees 8 5 [4, 5] 1 2 True) pair_values"
  by code_simp

lemma pair_solve:
  "checking_solver pair_values (build_model pair_employees 8 5 [4, 5] 1 2 True)
     = (FEASIBLE, pair_values)"
  by (simp add: checking_solver_def pair_satisfies)

lemma pair_run:
  "fst (schedule_workers_softmin_hardmax (checking_solver pair_values)
          pair_employees 8 5 [4, 5] 1 2 True) = Ok pair_schedule"
  by code_simp

lemma pair_feasible:
  "feasible_shifts pair_employees (build_candidate_shifts 8 5 [4, 5])
     = [[(8, 12), (9, 13), (8, 13)], [(8, 12), (9, 13), (8, 13)]]"
  by code_simp

section \<open>The claims\<close>

text \<open>
  Claim C1. Whenever the core returns a result with status ok, under a sound solving
  engine, the coverage reported for every hour of the day is at most the hard maximum
  \<open>max_workers_per_hour\<close>.
\<close>

theorem coverage_within_hard_max:
  assumes "solver_sound solve"
    and "fst (schedule_workers_softmin_hardmax solve emps ds dl ls mn mx one) = Ok r"
    and "ds \<le> h" and "h < ds + dl"
  shows "\<exists>c. map_of (coverage_by_hour r) h = Some c \<and> c \<le> mx"
proof -
  obtain st v where sv: "solve (build_model emps ds dl ls mn mx one) = (st, v)"
    by (cases "solve (build_model emps ds dl ls mn mx one)")
  note ok = schedule_Ok [OF assms(2) sv]
  have sat: "satisfies (build_model emps ds dl ls mn mx one) v"
    using solver_sound_satisfies [OF assms(1) sv ok(1)] .
  have "map_of (coverage_by_hour r) h = Some (v (Coverage h))"
    using assms(3,4) by (simp add: ok(2) map_of_tabulate set_py_range)
  moreover have "v (Coverage h) \<le> mx"
    using sat_hour_constraints(1) [OF sat assms(3,4)] .
  ultimately show ?thesis by simp
qed

theorem coverage_within_hard_max_example:
  "solver_sound (checking_solver example_values)
   \<and> fst (schedule_workers_softmin_hardmax (checking_solver example_values)
            example_employees 8 5 [4, 5] 1 2 True) = Ok example_schedule
   \<and> (8::int) \<le> 9 \<and> (9::int) < 8 + 5
   \<and> (\<exists>c. map_of (coverage_by_hour example_schedule) 9 = Some c \<and> c \<le> 2)"
proof -
  have h: "(8::int) \<le> 9" "(9::int) < 8 + 5" by simp_all
  from coverage_within_hard_max [OF checking_solver_sound example_run h]
    checking_solver_sound example_run h
  show ?thesis by blast
qed

text \<open>
  Claim C2. Whenever the core returns a result with status ok, under a sound solving
  engine, for every hour of the day the reported coverage plus the reported understaff
  is at least the soft minimum \<open>min_workers_per_hour\<close>, and the understaff is not
  negative.
\<close>

theorem understaff_fills_soft_min:
  assumes "solver_sound solve"
    and "fst (schedule_workers_softmin_hardmax solve emps ds dl ls mn mx one) = Ok r"
    and "ds \<le> h" and "h < ds + dl"
  shows "\<exists>c u. map_of (coverage_by_hour r) h = Some c \<and> map_of (understaff_by_hour r) h = Some u
            \<and> mn \<le> c + u \<and> 0 \<le> u"
proof -
  obtain st v where sv: "solve (build_model emps ds dl ls mn mx one) = (st, v)"
    by (cases "solve (build_model emps ds dl ls mn mx one)")
  note ok = schedule_Ok [OF assms(2) sv]
  have sat: "satisfies (build_model emps ds dl ls mn mx one) v"
    using solver_sound_satisfies [OF assms(1) sv ok(1)] .
  have "map_of (coverage_by_hour r) h = Some (v (Coverage h))"
    using assms(3,4) by (simp add: ok(2) map_of_tabulate set_py_range)
  moreover have "map_of (understaff_by_hour r) h = Some (v (Understaff h))"
    using assms(3,4) by (simp add: ok(3) map_of_tabulate set_py_range)
  moreover have "mn \<le> v (Coverage h) + v (Understaff h)"
    using sat_hour_constraints(2) [OF sat assms(3,4)] .
  moreover have "0 \<le> v (Understaff h)"
    using sat_hour_domains(1) [OF sat assms(3,4)] .
  ultimately show ?thesis by simp
qed

theorem understaff_fills_soft_min_example:
  "solver_sound (checking_solver example_values)
   \<and> fst (schedule_workers_softmin_hardmax (checking_solver example_values)
            example_employees 8 5 [4, 5] 1 2 True) = Ok example_schedule
   \<and> (8::int) \<le> 8 \<and> (8::int) < 8 + 5
   \<and> (\<exists>c u. map_of (coverage_by_hour example_schedule) 8 = Some c
         \<and> map_of (understaff_by_hour example_schedule) 8 = Some u \<and> 1 \<le> c + u \<and> 0 \<le> u)"
proof -
  have h: "(8::int) \<le> 8" "(8::int) < 8 + 5" by simp_all
  from understaff_fills_soft_min [OF checking_solver_sound example_run h]
    checking_solver_sound example_run h
  show ?thesis by blast
qed

text \<open>
  Claim C3. With \<open>max_one_shift_per_employee\<close> true, in every ok result each worker
  has at most one decision variable with value 1; the reported shift is None or one
  pair, and it is None exactly when no variable of the worker has value 1.
\<close>

theorem at_most_one_shift_per_worker:
  assumes "solver_sound solve"
    and "solve (build_model emps ds dl ls mn mx True) = (st, v)"
    and "fst (schedule_workers_softmin_hardmax solve emps ds dl ls mn mx True) = Ok r"
    and "i < length emps"
  shows "length (filter (\<lambda>s_idx. v (X i s_idx) = 1)
            [0..<length (feasible_shifts emps (build_candidate_shifts ds dl ls) ! i)]) \<le> 1
       \<and> (shift (assignments r ! i) = None \<or> (\<exists>a b. shift (assignments r ! i) = Some (a, b)))
       \<and> (shift (assignments r ! i) = None \<longleftrightarrow>
            filter (\<lambda>s_idx. v (X i s_idx) = 1)
              [0..<length (feasible_shifts emps (build_candidate_shifts ds dl ls) ! i)] = [])"
proof -
  let ?shifts = "feasible_shifts emps (build_candidate_shifts ds dl ls) ! i"
  note ok = schedule_Ok [OF assms(3) assms(2)]
  have sat: "satisfies (build_model emps ds dl ls mn mx True) v"
    using solver_sound_satisfies [OF assms(1) assms(2) ok(1)] .
  have dom: "\<forall>k\<in>set [0..<length ?shifts]. v (X i k) = 0 \<or> v (X i k) = 1"
    using sat_x_domain [OF sat assms(4)] by simp
  have "int (length (filter (\<lambda>k. v (X i k) = 1) [0..<length ?shifts]))
          = sum_list (map (\<lambda>k. v (X i k)) [0..<length ?shifts])"
    using sum_01_count [OF dom] by simp
  also have "\<dots> \<le> 1" using sat_one_shift [OF sat assms(4)] .
  finally have count: "length (filter (\<lambda>k. v (X i k) = 1) [0..<length ?shifts]) \<le> 1" by simp
  have opt: "shift (assignments r ! i) = None \<or> (\<exists>a b. shift (assignments r ! i) = Some (a, b))"
    by (cases "shift (assignments r ! i)") auto
  have "shift (assignments r ! i) = None \<longleftrightarrow> (\<forall>k<length ?shifts. v (X i (0 + k)) \<noteq> 1)"
    unfolding ok(9) [OF assms(4)] by (rule chosen_shift_None)
  also have "\<dots> \<longleftrightarrow> filter (\<lambda>k. v (X i k) = 1) [0..<length ?shifts] = []"
    by (auto simp: filter_empty_conv)
  finally show ?thesis using count opt by blast
qed

theorem at_most_one_shift_per_worker_example:
  "solver_sound (checking_solver pair_values)
   \<and> checking_solver pair_values (build_model pair_employees 8 5 [4, 5] 1 2 True)
       = (FEASIBLE, pair_values)
   \<and> fst (schedule_workers_softmin_hardmax (checking_solver pair_values)
            pair_employees 8 5 [4, 5] 1 2 True) = Ok pair_schedule
   \<and> 1 < length pair_employees
   \<and> feasible_shifts pair_employees (build_candidate_shifts 8 5 [4, 5]) ! 1
       = [(8, 12), (9, 13), (8, 13)]
   \<and> pair_values (X 1 0) = 0 \<and> pair_values (X 1 1) = 1 \<and> pair_values (X 1 2) = 0
   \<and> length (filter (\<lambda>s_idx. pair_values (X 1 s_idx) = 1)
        [0..<length (feasible_shifts pair_employees (build_candidate_shifts 8 5 [4, 5]) ! 1)]) \<le> 1
   \<and> filter (\<lambda>s_idx. pair_values (X 1 s_idx) = 1)
        [0..<length (feasible_shifts pair_employees (build_candidate_shifts 8 5 [4, 5]) ! 1)] \<noteq> []
   \<and> shift (assignments pair_schedule ! 1) = Some (9, 13)"
proof -
  have i: "1 < length pair_employees" by (simp add: pair_employees_def)
  have f: "feasible_shifts pair_employees (build_candidate_shifts 8 5 [4, 5]) ! 1
       = [(8, 12), (9, 13), (8, 13)]"
    by (simp add: pair_feasible)
  have x: "pair_values (X 1 0) = 0" "pair_values (X 1 1) = 1" "pair_values (X 1 2) = 0"
    by (simp_all add: pair_values_def)
  have s: "shift (assignments pair_schedule ! 1) = Some (9, 13)"
    by (simp add: pair_schedule_def)
  from at_most_one_shift_per_worker [OF checking_solver_sound pair_solve pair_run i]
    checking_solver_sound pair_solve pair_run i f x s
  show ?thesis by simp
qed

text \<open>
  Claim C4. The objective of the model handed to the solver is total understaff times
  100000 plus spread times 1000 plus total coverage times 1; in every valuation that
  satisfies the model the total understaff is the sum of the understaff variables of
  the hours and the total coverage the sum of their coverage variables.
\<close>

theorem objective_weights:
  assumes "m \<in> set (snd (schedule_workers_softmin_hardmax solve emps ds dl ls mn mx one))"
    and "satisfies m v"
  shows "objective m = Some (Plus (Plus (Times (Var Total_understaff) 100000) (Times (Var Spread) 1000))
                                  (Var Total_coverage))
       \<and> v Total_understaff = sum_list (map (\<lambda>h. v (Understaff h)) (py_range ds (ds + dl)))
       \<and> v Total_coverage = sum_list (map (\<lambda>h. v (Coverage h)) (py_range ds (ds + dl)))
       \<and> (\<exists>obj. objective m = Some obj \<and>
            eval v obj = sum_list (map (\<lambda>h. v (Understaff h)) (py_range ds (ds + dl))) * 100000
                         + v Spread * 1000
                         + sum_list (map (\<lambda>h. v (Coverage h)) (py_range ds (ds + dl))) * 1)"
proof -
  have m: "m = build_model emps ds dl ls mn mx one"
    using assms(1) by (simp add: snd_schedule split: if_splits)
  have sat: "satisfies (build_model emps ds dl ls mn mx one) v" using assms(2) m by simp
  note g = sat_globals [OF sat]
  show ?thesis
    unfolding m objective_build_model using g(2) g(3) by simp
qed

theorem objective_weights_example:
  "build_model example_employees 8 5 [4, 5] 1 2 True
     \<in> set (snd (schedule_workers_softmin_hardmax (checking_solver example_values)
                   example_employees 8 5 [4, 5] 1 2 True))
   \<and> satisfies (build_model example_employees 8 5 [4, 5] 1 2 True) example_values
   \<and> objective (build_model example_employees 8 5 [4, 5] 1 2 True) =
       Some (Plus (Plus (Times (Var Total_understaff) 100000) (Times (Var Spread) 1000))
                  (Var Total_coverage))
   \<and> example_values Total_understaff =
       sum_list (map (\<lambda>h. example_values (Understaff h)) (py_range 8 (8 + 5)))
   \<and> example_values Total_coverage =
       sum_list (map (\<lambda>h. example_values (Coverage h)) (py_range 8 (8 + 5)))"
proof -
  have m: "build_model example_employees 8 5 [4, 5] 1 2 True
     \<in> set (snd (schedule_workers_softmin_hardmax (checking_solver example_values)
                   example_employees 8 5 [4, 5] 1 2 True))"
    by code_simp
  from objective_weights [OF m example_satisfies] m example_satisfies
  show ?thesis by blast
qed

text \<open>
  Claim C5. For every day start hour, day length and list of allowed lengths,
  \<open>build_candidate_shifts\<close> returns exactly the pairs \<open>(start, start + L)\<close> with \<open>L\<close> an
  allowed length, \<open>start\<close> at or after the day start and \<open>start + L\<close> at or before the day
  end; when no allowed length fits within the day the result is the empty list.
\<close>

theorem build_candidate_shifts_exact:
  "set (build_candidate_shifts ds dl ls) =
     {(start, start + L) | start L. L \<in> set ls \<and> ds \<le> start \<and> start + L \<le> ds + dl}
   \<and> ((\<forall>L\<in>set ls. dl < L) \<longrightarrow> build_candidate_shifts ds dl ls = [])"
proof
  show "set (build_candidate_shifts ds dl ls) =
     {(start, start + L) | start L. L \<in> set ls \<and> ds \<le> start \<and> start + L \<le> ds + dl}"
    by (rule set_build_candidate_shifts)
next
  show "(\<forall>L\<in>set ls. dl < L) \<longrightarrow> build_candidate_shifts ds dl ls = []"
  proof
    assume nofit: "\<forall>L\<in>set ls. dl < L"
    have "set (build_candidate_shifts ds dl ls) = {}"
      unfolding set_build_candidate_shifts using nofit by fastforce
    then show "build_candidate_shifts ds dl ls = []" by simp
  qed
qed

theorem build_candidate_shifts_exact_example:
  "(3::int) < 4 \<and> (3::int) < 5 \<and> build_candidate_shifts 8 3 [4, 5] = []
   \<and> build_candidate_shifts 8 5 [4, 5] = [(8, 12), (9, 13), (8, 13)]"
proof -
  have h: "\<forall>L\<in>set [4, 5 :: int]. 3 < L" by simp
  have e: "build_candidate_shifts 8 5 [4, 5] = [(8, 12), (9, 13), (8, 13)]"
    by (simp add: build_candidate_shifts_def py_range_def upto.simps)
  from build_candidate_shifts_exact [of 8 3 "[4, 5]"] h e show ?thesis by simp
qed

text \<open>
  Claim C6. The feasibility filter keeps a candidate shift \<open>(s, e)\<close> for a worker
  exactly when no hour \<open>h\<close> with \<open>s \<le> h < e\<close> is in the worker's unavailable set. A
  worker whose unavailable hours exclude every candidate has an empty feasible list and
  is unassignable, not an error: on a day of at most 24 hours with positive lengths and
  64-bit bounds the core raises nothing, it answers no_solution only when the solver
  reports no solution, and whenever the solver reports one the result is ok with that
  worker unassigned (0 work hours under a sound engine). Nor does such a worker make the
  model unsatisfiable: with at least one employee, a maximum that is not negative, a
  minimum of at most 1000 and at most 10000 missing worker-hours in total, the valuation
  in which nobody works satisfies it.
\<close>

theorem feasibility_filter_exact:
  assumes "i < length emps"
  shows "(\<forall>s e. (s, e) \<in> set (feasible_shifts emps all_shifts ! i) \<longleftrightarrow>
            (s, e) \<in> set all_shifts \<and> \<not> (\<exists>h. s \<le> h \<and> h < e \<and> h \<in> get_unavailable (emps ! i)))
       \<and> ((\<forall>c\<in>set (build_candidate_shifts ds dl ls).
              overlaps_unavailability c (get_unavailable (emps ! i)))
           \<longrightarrow> feasible_shifts emps (build_candidate_shifts ds dl ls) ! i = []
             \<and> (\<forall>solve r. solver_sound solve
                   \<and> fst (schedule_workers_softmin_hardmax solve emps ds dl ls mn mx one) = Ok r
                   \<longrightarrow> shift (assignments r ! i) = None \<and> work_hours (assignments r ! i) = 0)
             \<and> (\<forall>solve st v. dl \<le> 24 \<and> (\<forall>L\<in>set ls. 0 < L) \<and> in_int64 mn \<and> in_int64 mx
                   \<and> solve (build_model emps ds dl ls mn mx one) = (st, v)
                   \<longrightarrow> (if st = OPTIMAL \<or> st = FEASIBLE
                        then \<exists>r. fst (schedule_workers_softmin_hardmax solve emps ds dl ls mn mx one)
                                   = Ok r
                                 \<and> employee (assignments r ! i) = name (emps ! i)
                                 \<and> shift (assignments r ! i) = None
                        else fst (schedule_workers_softmin_hardmax solve emps ds dl ls mn mx one)
                               = No_solution))
             \<and> (0 \<le> mx \<and> mn \<le> 1000
                   \<and> int (length (py_range ds (ds + dl))) * max 0 mn \<le> 10000
                   \<longrightarrow> satisfies (build_model emps ds dl ls mn mx one)
                         (idle_values (length (py_range ds (ds + dl))) mn)))"
proof (intro conjI allI impI)
  fix s e
  show "(s, e) \<in> set (feasible_shifts emps all_shifts ! i) \<longleftrightarrow>
          (s, e) \<in> set all_shifts \<and> \<not> (\<exists>h. s \<le> h \<and> h < e \<and> h \<in> get_unavailable (emps ! i))"
    by (simp add: nth_feasible_shifts [OF assms] overlaps_unavailability_iff)
next
  assume blocked: "\<forall>c\<in>set (build_candidate_shifts ds dl ls).
              overlaps_unavailability c (get_unavailable (emps ! i))"
  then show empty: "feasible_shifts emps (build_candidate_shifts ds dl ls) ! i = []"
    by (simp add: nth_feasible_shifts [OF assms] filter_empty_conv)
  {
    fix solve :: solver and r
    assume run: "solver_sound solve
        \<and> fst (schedule_workers_softmin_hardmax solve emps ds dl ls mn mx one) = Ok r"
    obtain st v where sv: "solve (build_model emps ds dl ls mn mx one) = (st, v)"
      by (cases "solve (build_model emps ds dl ls mn mx one)")
    from run have ok_r: "fst (schedule_workers_softmin_hardmax solve emps ds dl ls mn mx one) = Ok r"
      and sound: "solver_sound solve" by simp_all
    note ok = schedule_Ok [OF ok_r sv]
    have sat: "satisfies (build_model emps ds dl ls mn mx one) v"
      using solver_sound_satisfies [OF sound sv ok(1)] .
    show "shift (assignments r ! i) = None"
      by (simp add: ok(9) [OF assms] empty)
    show "work_hours (assignments r ! i) = 0"
      using sat_work_hours [OF sat assms] by (simp add: ok(10) [OF assms] empty)
  }
  {
    fix solve :: solver and st v
    assume h: "dl \<le> 24 \<and> (\<forall>L\<in>set ls. 0 < L) \<and> in_int64 mn \<and> in_int64 mx
        \<and> solve (build_model emps ds dl ls mn mx one) = (st, v)"
    then have sv: "solve (build_model emps ds dl ls mn mx one) = (st, v)" by simp
    from h have quiet: "\<not> model_raises (py_range ds (ds + dl))
        (feasible_shifts emps (build_candidate_shifts ds dl ls)) mn mx"
      by (intro no_raise_in_day) simp_all
    show "if st = OPTIMAL \<or> st = FEASIBLE
          then \<exists>r. fst (schedule_workers_softmin_hardmax solve emps ds dl ls mn mx one) = Ok r
                   \<and> employee (assignments r ! i) = name (emps ! i)
                   \<and> shift (assignments r ! i) = None
          else fst (schedule_workers_softmin_hardmax solve emps ds dl ls mn mx one) = No_solution"
    proof (cases "st = OPTIMAL \<or> st = FEASIBLE")
      case True
      from schedule_not_raised(2) [where solve = solve and one = one, OF quiet sv True] obtain r
        where r: "fst (schedule_workers_softmin_hardmax solve emps ds dl ls mn mx one) = Ok r"
        by blast
      note ok = schedule_Ok [OF r sv]
      have "shift (assignments r ! i) = None" by (simp add: ok(9) [OF assms] empty)
      moreover have "employee (assignments r ! i) = name (emps ! i)" by (rule ok(11) [OF assms])
      ultimately show ?thesis using True r by simp
    next
      case False
      then have "st \<noteq> OPTIMAL" "st \<noteq> FEASIBLE" by simp_all
      from schedule_not_raised(1) [where solve = solve and one = one, OF quiet sv this] False show ?thesis by simp
    qed
  }
  {
    assume b: "0 \<le> mx \<and> mn \<le> 1000
        \<and> int (length (py_range ds (ds + dl))) * max 0 mn \<le> 10000"
    have "emps \<noteq> []" using assms by auto
    with b show "satisfies (build_model emps ds dl ls mn mx one)
                   (idle_values (length (py_range ds (ds + dl))) mn)"
      by (intro idle_values_satisfy) simp_all
  }
qed

theorem feasibility_filter_exact_example:
  "1 < length example_employees
   \<and> build_candidate_shifts 8 5 [4, 5] = [(8, 12), (9, 13), (8, 13)]
   \<and> overlaps_unavailability (8, 12) (get_unavailable (example_employees ! 1))
   \<and> overlaps_unavailability (9, 13) (get_unavailable (example_employees ! 1))
   \<and> overlaps_unavailability (8, 13) (get_unavailable (example_employees ! 1))
   \<and> solver_sound (checking_solver example_values)
   \<and> (5::int) \<le> 24 \<and> (0::int) < 4 \<and> (0::int) < 5 \<and> in_int64 1 \<and> in_int64 2
   \<and> checking_solver example_values (build_model example_employees 8 5 [4, 5] 1 2 True)
       = (FEASIBLE, example_values)
   \<and> fst (schedule_workers_softmin_hardmax (checking_solver example_values)
            example_employees 8 5 [4, 5] 1 2 True) = Ok example_schedule
   \<and> feasible_shifts example_employees (build_candidate_shifts 8 5 [4, 5]) ! 1 = []
   \<and> employee (assignments example_schedule ! 1) = name (example_employees ! 1)
   \<and> shift (assignments example_schedule ! 1) = None
   \<and> work_hours (assignments example_schedule ! 1) = 0
   \<and> (0::int) \<le> 2 \<and> (1::int) \<le> 1000
   \<and> int (length (py_range 8 (8 + 5))) * max 0 1 \<le> 10000
   \<and> satisfies (build_model example_employees 8 5 [4, 5] 1 2 True)
        (idle_values (length (py_range 8 (8 + 5))) 1)"
proof -
  have i: "1 < length example_employees" by (simp add: example_employees_def)
  have c: "build_candidate_shifts 8 5 [4, 5] = [(8, 12), (9, 13), (8, 13)]"
    by code_simp
  have o: "overlaps_unavailability (8, 12) (get_unavailable (example_employees ! 1))"
    "overlaps_unavailability (9, 13) (get_unavailable (example_employees ! 1))"
    "overlaps_unavailability (8, 13) (get_unavailable (example_employees ! 1))"
    by code_simp+
  have b: "\<forall>c\<in>set (build_candidate_shifts 8 5 [4, 5]).
         overlaps_unavailability c (get_unavailable (example_employees ! 1))"
    unfolding c using o by simp
  have n: "(5::int) \<le> 24" "\<forall>L\<in>set [4, 5 :: int]. 0 < L" "in_int64 1" "in_int64 2"
    "(0::int) < 4" "(0::int) < 5"
    by (simp_all add: in_int64_def)
  have m: "(0::int) \<le> 2" "(1::int) \<le> 1000"
    "int (length (py_range 8 (8 + 5))) * max 0 1 \<le> 10000"
    by (simp_all add: py_range_def)
  have e: "employee (assignments example_schedule ! 1) = name (example_employees ! 1)"
    by (simp add: example_schedule_def example_employees_def)
  note t = feasibility_filter_exact [OF i, of "build_candidate_shifts 8 5 [4, 5]" 8 5 "[4, 5]" 1 2 True]
  from t b have 1: "feasible_shifts example_employees (build_candidate_shifts 8 5 [4, 5]) ! 1 = []"
    by blast
  from t b checking_solver_sound example_run
  have 2: "shift (assignments example_schedule ! 1) = None
      \<and> work_hours (assignments example_schedule ! 1) = 0"
    by blast
  from t b m have 3: "satisfies (build_model example_employees 8 5 [4, 5] 1 2 True)
        (idle_values (length (py_range 8 (8 + 5))) 1)"
    by blast
  from i c o checking_solver_sound n m example_solve example_run e 1 2 3
  show ?thesis by simp
qed

text \<open>
  Claim C7. In every ok result, under a sound solving engine, the reported fairness
  spread is the maximum minus the minimum of the reported work hours of the workers;
  the work hours of a worker are the sum of \<open>end - start\<close> over the worker's selected
  shifts, and 0 for a worker without feasible shifts.
\<close>

theorem fairness_spread_is_max_minus_min:
  assumes "solver_sound solve"
    and "solve (build_model emps ds dl ls mn mx one) = (st, v)"
    and "fst (schedule_workers_softmin_hardmax solve emps ds dl ls mn mx one) = Ok r"
  shows "fairness_spread r = Max (set (map work_hours (assignments r)))
                             - Min (set (map work_hours (assignments r)))
       \<and> (\<forall>i<length (assignments r).
             work_hours (assignments r ! i) =
               sum_list (map (\<lambda>s. snd s - fst s)
                  (selected_shifts v i (feasible_shifts emps (build_candidate_shifts ds dl ls) ! i)))
             \<and> (feasible_shifts emps (build_candidate_shifts ds dl ls) ! i = []
                  \<longrightarrow> work_hours (assignments r ! i) = 0))"
proof -
  let ?F = "feasible_shifts emps (build_candidate_shifts ds dl ls)"
  let ?W = "set (map work_hours (assignments r))"
  note ok = schedule_Ok [OF assms(3) assms(2)]
  have sat: "satisfies (build_model emps ds dl ls mn mx one) v"
    using solver_sound_satisfies [OF assms(1) assms(2) ok(1)] .
  note g = sat_globals [OF sat]
  have W: "?W = {v (Work_hours i) | i. i < length emps}"
  proof -
    have "map work_hours (assignments r) = map (\<lambda>i. v (Work_hours i)) [0..<length emps]"
      by (rule nth_equalityI) (simp_all add: ok(8) ok(10))
    then show ?thesis by auto
  qed
  have fin: "finite ?W" by simp
  have "Max ?W = v Max_work"
  proof (rule Max_eqI [OF fin])
    show "v Max_work \<in> ?W" using g(4) unfolding W by blast
    show "y \<le> v Max_work" if "y \<in> ?W" for y using that g(5) unfolding W by blast
  qed
  moreover have "Min ?W = v Min_work"
  proof (rule Min_eqI [OF fin])
    show "v Min_work \<in> ?W" using g(6) unfolding W by blast
    show "v Min_work \<le> y" if "y \<in> ?W" for y using that g(7) unfolding W by blast
  qed
  ultimately have spread: "fairness_spread r = Max ?W - Min ?W"
    using ok(4) g(1) by simp
  have hours: "work_hours (assignments r ! i) =
       sum_list (map (\<lambda>s. snd s - fst s) (selected_shifts v i (?F ! i)))
     \<and> (?F ! i = [] \<longrightarrow> work_hours (assignments r ! i) = 0)"
    if "i < length (assignments r)" for i
  proof -
    from that have i: "i < length emps" by (simp add: ok(8))
    have dom: "\<forall>k\<in>set [0..<length (?F ! i)]. v (X i k) = 0 \<or> v (X i k) = 1"
      using sat_x_domain [OF sat i] by simp
    have "work_hours (assignments r ! i) = v (Work_hours i)" by (rule ok(10) [OF i])
    also have "\<dots> = sum_list (map (\<lambda>k. v (X i k) * (snd (?F ! i ! k) - fst (?F ! i ! k)))
                         [0..<length (?F ! i)])"
      by (rule sat_work_hours [OF sat i])
    also have "\<dots> = sum_list (map (\<lambda>k. snd (?F ! i ! k) - fst (?F ! i ! k))
                         (filter (\<lambda>k. v (X i k) = 1) [0..<length (?F ! i)]))"
      by (rule sum_01_selected [OF dom])
    also have "\<dots> = sum_list (map (\<lambda>s. snd s - fst s) (selected_shifts v i (?F ! i)))"
      by (simp add: selected_shifts_def comp_def)
    finally have eq: "work_hours (assignments r ! i) =
       sum_list (map (\<lambda>s. snd s - fst s) (selected_shifts v i (?F ! i)))" .
    then show ?thesis by (auto simp: selected_shifts_def)
  qed
  from spread hours show ?thesis by blast
qed

theorem fairness_spread_is_max_minus_min_example:
  "solver_sound (checking_solver example_values)
   \<and> checking_solver example_values (build_model example_employees 8 5 [4, 5] 1 2 True)
       = (FEASIBLE, example_values)
   \<and> fst (schedule_workers_softmin_hardmax (checking_solver example_values)
            example_employees 8 5 [4, 5] 1 2 True) = Ok example_schedule
   \<and> 1 < length (assignments example_schedule)
   \<and> feasible_shifts example_employees (build_candidate_shifts 8 5 [4, 5]) ! 1 = []
   \<and> fairness_spread example_schedule =
       Max (set (map work_hours (assignments example_schedule)))
       - Min (set (map work_hours (assignments example_schedule)))
   \<and> work_hours (assignments example_schedule ! 1) = 0"
proof -
  have i: "1 < length (assignments example_schedule)" by (simp add: example_schedule_def)
  have e: "feasible_shifts example_employees (build_candidate_shifts 8 5 [4, 5]) ! 1 = []"
    by (simp add: example_feasible)
  from fairness_spread_is_max_minus_min [OF checking_solver_sound example_solve example_run]
    checking_solver_sound example_solve example_run i e
  show ?thesis by blast
qed

text \<open>
  Claim C8, as stated: every invalid configuration, among them a non-positive day
  length and a set of allowed lengths none of which fits the day, is rejected before
  any model is built. It fails: with one employee and bounds 1 and 2, a day of 3 hours
  (no length of 4 or 5 fits) and a day of 0 hours both pass the guards of
  \<open>run_scheduler\<close> without a message; the model is built and handed to the solver,
  and the result views are filled.
\<close>

theorem invalid_day_length_not_rejected:
  "fst (run_scheduler (checking_solver short_day_values) short_day_ui) = Rendered
   \<and> snd (snd (run_scheduler (checking_solver short_day_values) short_day_ui)) =
       [build_model (employees short_day_ui) 8 3 [4, 5] 1 2 True]
   \<and> build_candidate_shifts 8 3 [4, 5] = []
   \<and> fst (run_scheduler (checking_solver zero_values) empty_day_ui) = Rendered
   \<and> snd (snd (run_scheduler (checking_solver zero_values) empty_day_ui)) =
       [build_model (employees empty_day_ui) 8 0 [4, 5] 1 2 True]"
  by code_simp

text \<open>
  Claim C8, amended. A configuration with a negative coverage bound or with a maximum
  below the minimum is rejected before any model is built, the error surfaced to the
  user at once: \<open>run_scheduler\<close> shows an error message box, leaves the window state
  as it was, and neither builds a model nor invokes the solver.
\<close>

theorem coverage_bounds_rejected_by_caller:
  assumes "min_cov_var ui < 0 \<or> max_cov_var ui < 0 \<or> max_cov_var ui < min_cov_var ui"
  shows "(\<exists>title message. fst (run_scheduler solve ui) = Showerror title message)
       \<and> snd (run_scheduler solve ui) = (ui, [])"
  using assms by (auto simp: run_scheduler_def Let_def)

theorem coverage_bounds_rejected_by_caller_example:
  "max_cov_var bad_coverage_ui < min_cov_var bad_coverage_ui
   \<and> fst (run_scheduler (checking_solver zero_values) bad_coverage_ui) =
       Showerror ''Invalid coverage'' ''Min workers/hour cannot be greater than Max workers/hour.''
   \<and> snd (run_scheduler (checking_solver zero_values) bad_coverage_ui) = (bad_coverage_ui, [])"
proof -
  have b: "max_cov_var bad_coverage_ui < min_cov_var bad_coverage_ui"
    by (simp add: bad_coverage_ui_def)
  have m: "fst (run_scheduler (checking_solver zero_values) bad_coverage_ui) =
       Showerror ''Invalid coverage'' ''Min workers/hour cannot be greater than Max workers/hour.''"
    by (simp add: run_scheduler_def bad_coverage_ui_def)
  from coverage_bounds_rejected_by_caller [of bad_coverage_ui "checking_solver zero_values"] b m
  show ?thesis by blast
qed

text \<open>
  Claim C9, as stated: with zero workers the core rejects the request before building
  the model or invoking the solver. It fails: called with the empty employee list the
  core builds the model and invokes the solver on it, and returns the solver's
  no_solution status.
\<close>

theorem core_accepts_zero_workers:
  "snd (schedule_workers_softmin_hardmax (checking_solver zero_values) [] 8 12 [4, 5] 1 2 True)
     = [build_model [] 8 12 [4, 5] 1 2 True]
   \<and> fst (schedule_workers_softmin_hardmax (checking_solver zero_values) [] 8 12 [4, 5] 1 2 True)
     = No_solution"
  by code_simp

text \<open>
  Claim C9, amended. With zero workers the request is rejected by the caller
  \<open>run_scheduler\<close>, with the message "No employees", before the core is called: no
  model is built and the solver is not invoked.
\<close>

theorem zero_workers_rejected_by_caller:
  assumes "employees ui = []"
  shows "run_scheduler solve ui =
           (Showerror ''No employees'' ''Add at least one employee.'', ui, [])"
  using assms by (simp add: run_scheduler_def)

theorem zero_workers_rejected_by_caller_example:
  "employees no_employees_ui = []
   \<and> run_scheduler (checking_solver zero_values) no_employees_ui =
       (Showerror ''No employees'' ''Add at least one employee.'', no_employees_ui, [])"
proof -
  have e: "employees no_employees_ui = []" by (simp add: no_employees_ui_def)
  from zero_workers_rejected_by_caller [OF e, of "checking_solver zero_values"] e
  show ?thesis by blast
qed

text \<open>
  Claim C10. In every ok result a reported shift of a worker is an element of that
  worker's filtered list: no hour of it is in the worker's unavailable set, it lies
  between the day start and the day end, and its length is one of the allowed lengths.
\<close>

theorem reported_shift_is_feasible:
  assumes "fst (schedule_workers_softmin_hardmax solve emps ds dl ls mn mx one) = Ok r"
    and "i < length emps"
    and "shift (assignments r ! i) = Some (a, b)"
  shows "(a, b) \<in> set (feasible_shifts emps (build_candidate_shifts ds dl ls) ! i)
       \<and> (\<forall>h. a \<le> h \<and> h < b \<longrightarrow> h \<notin> get_unavailable (emps ! i))
       \<and> ds \<le> a \<and> b \<le> ds + dl \<and> b - a \<in> set ls"
proof -
  let ?all = "build_candidate_shifts ds dl ls"
  let ?shifts = "feasible_shifts emps ?all ! i"
  obtain st v where sv: "solve (build_model emps ds dl ls mn mx one) = (st, v)"
    by (cases "solve (build_model emps ds dl ls mn mx one)")
  note ok = schedule_Ok [OF assms(1) sv]
  have "chosen_shift v i (enumerate 0 ?shifts) = Some (a, b)"
    using ok(9) [OF assms(2)] assms(3) by simp
  from chosen_shift_Some [OF this] have mem: "(a, b) \<in> set ?shifts"
    by (auto simp: in_set_conv_nth)
  then have cand: "(a, b) \<in> set ?all"
    and free: "\<not> overlaps_unavailability (a, b) (get_unavailable (emps ! i))"
    by (simp_all add: nth_feasible_shifts [OF assms(2)])
  from cand obtain L where "L \<in> set ls" "ds \<le> a" "b = a + L" "a + L \<le> ds + dl"
    by (auto simp: set_build_candidate_shifts)
  moreover from free have "\<forall>h. a \<le> h \<and> h < b \<longrightarrow> h \<notin> get_unavailable (emps ! i)"
    by (auto simp: overlaps_unavailability_iff)
  ultimately show ?thesis using mem by simp
qed

theorem reported_shift_is_feasible_example:
  "fst (schedule_workers_softmin_hardmax (checking_solver example_values)
            example_employees 8 5 [4, 5] 1 2 True) = Ok example_schedule
   \<and> 0 < length example_employees
   \<and> shift (assignments example_schedule ! 0) = Some (9, 13)
   \<and> (9, 13) \<in> set (feasible_shifts example_employees (build_candidate_shifts 8 5 [4, 5]) ! 0)
   \<and> (8::int) \<le> 9 \<and> (13::int) \<le> 8 + 5 \<and> (13::int) - 9 \<in> set [4, 5]"
proof -
  have i: "0 < length example_employees" by (simp add: example_employees_def)
  have s: "shift (assignments example_schedule ! 0) = Some (9, 13)"
    by (simp add: example_schedule_def)
  from reported_shift_is_feasible [OF example_run i s] example_run i s
  show ?thesis by blast
qed

end
